theory Spec2Isabelle
  imports Main
begin

section \<open>Data model\<close>

text \<open>
  The records follow the JSDoc typedefs of the fetch module (\<^verbatim>\<open>PodcastPreview\<close>,
  \<^verbatim>\<open>Episode\<close>, \<^verbatim>\<open>Season\<close>, \<^verbatim>\<open>PodcastShow\<close>) and the genre reference list handed to
  \<^verbatim>\<open>ShowDetailPage\<close>. Field names carry the record's name as a prefix, since several
  typedefs share \<^verbatim>\<open>title\<close>, \<^verbatim>\<open>image\<close> and \<^verbatim>\<open>id\<close>. A JavaScript string is a \<open>string\<close>, one
  element per code unit; a JavaScript number that the typedefs use as an identifier or a
  count is an \<open>int\<close>.

  The component guards \<^verbatim>\<open>show.genres\<close> and \<^verbatim>\<open>show.seasons\<close> against being missing
  (\<^verbatim>\<open>!show.genres\<close>, \<^verbatim>\<open>data.seasons && ...\<close>), so both fields are optional here:
  \<open>None\<close> is a missing (or \<^verbatim>\<open>null\<close>) property, \<open>Some []\<close> the empty array, which is truthy
  in JavaScript.
\<close>

record podcast_preview =
  preview_id :: string
  preview_title :: string
  preview_image :: string
  preview_seasons :: int
  preview_updated :: string
  preview_genres :: "int list"

record episode =
  episode_title :: string
  episode_description :: string
  episode_file :: string

record season =
  season_number :: int
  season_title :: string
  season_image :: string
  episodes :: "episode list"

record podcast_show =
  show_id :: string
  show_title :: string
  show_description :: string
  show_image :: string
  show_updated :: string
  genres :: "int list option"
  seasons :: "season list option"

record genre =
  genre_id :: int
  genre_title :: string

section \<open>JavaScript primitives used by the code\<close>

text \<open>
  \<^verbatim>\<open>String.prototype.substring(start, end)\<close> for non-negative integer arguments: both
  are clamped to the length, swapped when \<^verbatim>\<open>start > end\<close>, and the code units from the
  smaller (inclusive) to the larger (exclusive) are returned.
\<close>

definition substring :: "string \<Rightarrow> nat \<Rightarrow> nat \<Rightarrow> string" where
  "substring s start end' =
     (let len = length s;
          a = min start len;
          b = min end' len;
          lo = min a b;
          hi = max a b
      in take (hi - lo) (drop lo s))"

text \<open>
  Template-literal conversion \<^verbatim>\<open>${n}\<close> of a number that is an integer: decimal digits without
  leading zeros, with a leading minus sign for negative values. This is what JavaScript prints
  for every integer of magnitude below \<open>2^53\<close>, the range in which each integer is a number of
  its own. Above it numbers are rounded and printed by their shortest digits (\<open>2^64\<close> prints as
  \<^verbatim>\<open>18446744073709552000\<close>), and from \<open>10^21\<close> on in exponent notation (\<^verbatim>\<open>1e+21\<close>); the
  statements below use the function for status codes and for ids of magnitude below \<open>2^53\<close>.
\<close>


fun digits :: "nat \<Rightarrow> string" where
  "digits n =
     (if n < 10 then [''0123456789'' ! n]
      else digits (n div 10) @ [''0123456789'' ! (n mod 10)])"

declare digits.simps [simp del]

definition number_to_string :: "int \<Rightarrow> string" where
  "number_to_string n =
     (if n < 0 then CHR ''-'' # digits (nat (- n)) else digits (nat n))"

text \<open>
  Reading a decimal numeral back, to say what the printed form is: \<open>read_int\<close> accepts only
  the digits \<^verbatim>\<open>0\<close> to \<^verbatim>\<open>9\<close> after an optional minus sign, no leading zero, no empty
  numeral and no \<^verbatim>\<open>-0\<close>, and gives the integer the numeral denotes.
\<close>

definition digit_of :: "char \<Rightarrow> nat option" where
  "digit_of c = map_of (zip ''0123456789'' [0 ..< 10]) c"

fun digits_value :: "nat \<Rightarrow> string \<Rightarrow> nat option" where
  "digits_value acc [] = Some acc"
| "digits_value acc (c # cs) =
     (case digit_of c of None \<Rightarrow> None | Some v \<Rightarrow> digits_value (10 * acc + v) cs)"

definition read_nat :: "string \<Rightarrow> nat option" where
  "read_nat t =
     (if t = [] \<or> (hd t = CHR ''0'' \<and> tl t \<noteq> []) then None else digits_value 0 t)"

definition read_int :: "string \<Rightarrow> int option" where
  "read_int t =
     (if t \<noteq> [] \<and> hd t = CHR ''-'' then
        (case read_nat (tl t) of
           None \<Rightarrow> None
         | Some n \<Rightarrow> if n = 0 then None else Some (- int n))
      else map_option int (read_nat t))"

text \<open>Truthiness of a state slot that holds \<^verbatim>\<open>null\<close> or a string: the empty string is falsy.\<close>

definition truthy :: "string option \<Rightarrow> bool" where
  "truthy e = (case e of None \<Rightarrow> False | Some m \<Rightarrow> m \<noteq> [])"

section \<open>Derived values of the detail view\<close>

text \<open>
  \<^verbatim>\<open>genreTags\<close>: one \<^verbatim>\<open><span key={genreId}>\<close> per entry of \<^verbatim>\<open>show.genres\<close>, whose text is
  the title of the first reference genre found by \<^verbatim>\<open>allGenres.find((g) => g.id === genreId)\<close>,
  or \<^verbatim>\<open>Unknown (${genreId})\<close>. The state slot \<^verbatim>\<open>show\<close> is \<^verbatim>\<open>null\<close> until a show is loaded.
\<close>

record genre_tag =
  tag_key :: int
  tag_text :: string

definition genreTags :: "podcast_show option \<Rightarrow> genre list \<Rightarrow> genre_tag list" where
  "genreTags sh allGenres =
     (case sh of
        None \<Rightarrow> []
      | Some d \<Rightarrow>
          (case genres d of
             None \<Rightarrow> []
           | Some gs \<Rightarrow>
               map (\<lambda>genreId.
                      let genreMatch = find (\<lambda>g. genre_id g = genreId) allGenres
                      in \<lparr>tag_key = genreId,
                          tag_text = (case genreMatch of
                                        Some g \<Rightarrow> genre_title g
                                      | None \<Rightarrow> ''Unknown ('' @ number_to_string genreId @ '')'')\<rparr>)
                   gs))"

text \<open>
  \<^verbatim>\<open>totalEpisodes\<close>: \<^verbatim>\<open>show.seasons.reduce((acc, season) => acc + season.episodes.length, 0)\<close>,
  and 0 when there is no show or no \<^verbatim>\<open>seasons\<close> property. \<^verbatim>\<open>reduce\<close> runs left to right from the
  initial accumulator.
\<close>

definition totalEpisodes :: "podcast_show option \<Rightarrow> nat" where
  "totalEpisodes sh =
     (case sh of
        None \<Rightarrow> 0
      | Some d \<Rightarrow>
          (case seasons d of
             None \<Rightarrow> 0
           | Some ss \<Rightarrow> foldl (\<lambda>acc season. acc + length (episodes season)) 0 ss))"

text \<open>
  The episode card's description line: \<^verbatim>\<open>{episode.description.substring(0, 150)}...\<close>, the
  substring followed by the literal text of three full stops.
\<close>

definition episodeSummary :: "episode \<Rightarrow> string" where
  "episodeSummary e = substring (episode_description e) 0 150 @ ''...''"

section \<open>The network, as the fetch helpers see it\<close>

text \<open>
  A caught exception is read only through \<^verbatim>\<open>err.message\<close>, so an exception is its message.
  The errors the helpers raise themselves are \<^verbatim>\<open>new Error(...)\<close>; a rejection of \<^verbatim>\<open>fetch\<close>
  (transport failure) or of \<^verbatim>\<open>res.json()\<close> (unparseable body) arrives as an exception too.
\<close>

datatype js_error = Error (message: string)

text \<open>
  A \<^verbatim>\<open>Response\<close>: its status code and what \<^verbatim>\<open>res.json()\<close> settles to, either a rejection or
  the parsed body of type \<open>'a\<close>. \<^verbatim>\<open>res.ok\<close> is the Fetch API's getter: the status lies in
  200..299.
\<close>

record 'a response =
  status :: nat
  json :: "js_error + 'a"

definition ok :: "'a response \<Rightarrow> bool" where
  "ok res \<longleftrightarrow> 200 \<le> status res \<and> status res \<le> 299"

text \<open>What \<^verbatim>\<open>await fetch(url)\<close> settles to: a rejection, or a response.\<close>

type_synonym 'a fetch_result = "js_error + 'a response"

section \<open>fetchPodcasts\<close>

text \<open>
  The helper receives the three state setters of its caller. The \<^verbatim>\<open>try\<close> block either throws or
  reaches \<^verbatim>\<open>setPodcasts(data)\<close>; the \<^verbatim>\<open>catch\<close> block calls \<^verbatim>\<open>setError(err.message)\<close>; the
  \<^verbatim>\<open>finally\<close> block calls \<^verbatim>\<open>setLoading(false)\<close> on both paths. The parsed body is handed to
  \<^verbatim>\<open>setPodcasts\<close> as it is.
\<close>

definition fetchPodcasts_try :: "'a fetch_result \<Rightarrow> js_error + 'a" where
  "fetchPodcasts_try r =
     (case r of
        Inl err \<Rightarrow> Inl err
      | Inr res \<Rightarrow>
          if \<not> ok res then Inl (Error (number_to_string (int (status res))))
          else (case json res of Inl err \<Rightarrow> Inl err | Inr data \<Rightarrow> Inr data))"

definition fetchPodcasts ::
  "('a \<Rightarrow> 'st \<Rightarrow> 'st) \<Rightarrow> (string option \<Rightarrow> 'st \<Rightarrow> 'st) \<Rightarrow> (bool \<Rightarrow> 'st \<Rightarrow> 'st)
     \<Rightarrow> 'a fetch_result \<Rightarrow> 'st \<Rightarrow> 'st" where
  "fetchPodcasts setPodcasts setError setLoading r s =
     (case fetchPodcasts_try r of
        Inr data \<Rightarrow> setLoading False (setPodcasts data s)
      | Inl err \<Rightarrow> setLoading False (setError (Some (message err)) s))"

text \<open>
  The state of \<^verbatim>\<open>App\<close>: \<^verbatim>\<open>useState([])\<close>, \<^verbatim>\<open>useState(true)\<close>, \<^verbatim>\<open>useState(null)\<close>. The slots
  \<^verbatim>\<open>loading\<close> and \<^verbatim>\<open>error\<close> are prefixed, the detail page has slots of the same names.
\<close>

record app_state =
  podcasts :: "podcast_preview list"
  podcasts_loading :: bool
  podcasts_error :: "string option"

definition app_initial :: app_state where
  "app_initial = \<lparr>podcasts = [], podcasts_loading = True, podcasts_error = None\<rparr>"

text \<open>The mount effect of \<^verbatim>\<open>App\<close>: \<^verbatim>\<open>fetchPodcasts(setPodcasts, setError, setLoading)\<close>.\<close>

definition App_effect :: "podcast_preview list fetch_result \<Rightarrow> app_state \<Rightarrow> app_state" where
  "App_effect r s =
     fetchPodcasts (\<lambda>v st. st\<lparr>podcasts := v\<rparr>) (\<lambda>v st. st\<lparr>podcasts_error := v\<rparr>)
       (\<lambda>v st. st\<lparr>podcasts_loading := v\<rparr>) r s"

text \<open>
  The three conditional blocks that \<^verbatim>\<open>App\<close> renders below the controls, in order: the
  spinner under \<^verbatim>\<open>loading &&\<close>, the banner under \<^verbatim>\<open>error &&\<close>, the grid under
  \<^verbatim>\<open>!loading && !error &&\<close>.
\<close>

datatype app_block = LoadingPodcasts | PodcastsError string | GridAndPagination

definition App_blocks :: "app_state \<Rightarrow> app_block list" where
  "App_blocks s =
     (if podcasts_loading s then [LoadingPodcasts] else [])
     @ (case podcasts_error s of
          None \<Rightarrow> []
        | Some e \<Rightarrow>
            if e \<noteq> [] then [PodcastsError (''Error occurred while fetching podcasts: '' @ e)]
            else [])
     @ (if \<not> podcasts_loading s \<and> \<not> truthy (podcasts_error s) then [GridAndPagination] else [])"

section \<open>fetchShowDetails and the detail page\<close>

text \<open>
  \<^verbatim>\<open>fetchShowDetails\<close> runs in two parts, split at \<^verbatim>\<open>await fetch(...)\<close>. The part before the
  \<^verbatim>\<open>await\<close> runs when the function is called: \<^verbatim>\<open>setLoading(true); setError(null)\<close>. The part
  after runs when the request settles: the rest of the \<^verbatim>\<open>try\<close> block, then \<^verbatim>\<open>catch\<close> and
  \<^verbatim>\<open>finally\<close>, and it produces the return value, the parsed body or \<^verbatim>\<open>null\<close>. The parsed
  body is a \<open>podcast_show option\<close>: \<open>None\<close> is a falsy body such as JSON \<^verbatim>\<open>null\<close>, which the
  caller's \<^verbatim>\<open>if (data)\<close> treats like the \<^verbatim>\<open>null\<close> returned after an error. Other requests may
  be called or settle between the two parts. The argument \<^verbatim>\<open>showId\<close> only selects the URL and
  appears in the console message; what the network answers is the parameter \<open>r\<close>.
\<close>

definition fetchShowDetails_call ::
  "(bool \<Rightarrow> 'st \<Rightarrow> 'st) \<Rightarrow> (string option \<Rightarrow> 'st \<Rightarrow> 'st) \<Rightarrow> 'st \<Rightarrow> 'st" where
  "fetchShowDetails_call setLoading setError s = setError None (setLoading True s)"

definition fetchShowDetails_try :: "'a fetch_result \<Rightarrow> js_error + 'a" where
  "fetchShowDetails_try r =
     (case r of
        Inl err \<Rightarrow> Inl err
      | Inr res \<Rightarrow>
          if \<not> ok res then
            (if status res = 404 then Inl (Error ''Show not found.'')
             else Inl (Error (''Failed to fetch show details: ''
                               @ number_to_string (int (status res)))))
          else (case json res of Inl err \<Rightarrow> Inl err | Inr data \<Rightarrow> Inr data))"

definition fetchShowDetails_settle ::
  "(bool \<Rightarrow> 'st \<Rightarrow> 'st) \<Rightarrow> (string option \<Rightarrow> 'st \<Rightarrow> 'st)
     \<Rightarrow> 'd option fetch_result \<Rightarrow> 'st \<Rightarrow> 'd option \<times> 'st" where
  "fetchShowDetails_settle setLoading setError r s =
     (case fetchShowDetails_try r of
        Inr data \<Rightarrow> (data, setLoading False s)
      | Inl err \<Rightarrow> (None, setLoading False (setError (Some (message err)) s)))"

text \<open>One invocation with nothing in between: called, then settled.\<close>

definition fetchShowDetails ::
  "(bool \<Rightarrow> 'st \<Rightarrow> 'st) \<Rightarrow> (string option \<Rightarrow> 'st \<Rightarrow> 'st)
     \<Rightarrow> 'd option fetch_result \<Rightarrow> 'st \<Rightarrow> 'd option \<times> 'st" where
  "fetchShowDetails setLoading setError r s =
     fetchShowDetails_settle setLoading setError r (fetchShowDetails_call setLoading setError s)"

text \<open>
  The state of \<^verbatim>\<open>ShowDetailPage\<close>: \<^verbatim>\<open>show\<close> (\<^verbatim>\<open>useState(null)\<close>), \<^verbatim>\<open>loading\<close>
  (\<^verbatim>\<open>useState(true)\<close>), \<^verbatim>\<open>error\<close> (\<^verbatim>\<open>useState(null)\<close>) and \<^verbatim>\<open>selectedSeasonIndex\<close>
  (\<^verbatim>\<open>useState(0)\<close>).
\<close>

record detail_state =
  show' :: "podcast_show option"
  loading :: bool
  error :: "string option"
  selectedSeasonIndex :: nat

definition detail_initial :: detail_state where
  "detail_initial = \<lparr>show' = None, loading = True, error = None, selectedSeasonIndex = 0\<rparr>"

definition setShow :: "podcast_show option \<Rightarrow> detail_state \<Rightarrow> detail_state" where
  "setShow v s = s\<lparr>show' := v\<rparr>"

definition setLoading :: "bool \<Rightarrow> detail_state \<Rightarrow> detail_state" where
  "setLoading v s = s\<lparr>loading := v\<rparr>"

definition setError :: "string option \<Rightarrow> detail_state \<Rightarrow> detail_state" where
  "setError v s = s\<lparr>error := v\<rparr>"

definition setSelectedSeasonIndex :: "nat \<Rightarrow> detail_state \<Rightarrow> detail_state" where
  "setSelectedSeasonIndex v s = s\<lparr>selectedSeasonIndex := v\<rparr>"

text \<open>
  \<^verbatim>\<open>loadShowDetails\<close>, the body of the effect that runs when \<^verbatim>\<open>id\<close> changes, in the same two
  parts. After the \<^verbatim>\<open>await\<close>: \<^verbatim>\<open>if (data) { setShow(data); if (data.seasons &&
  data.seasons.length > 0) setSelectedSeasonIndex(0) }\<close>. There is no \<^verbatim>\<open>else\<close> branch and no
  check of which \<^verbatim>\<open>id\<close> is current.
\<close>

definition loadShowDetails_call :: "detail_state \<Rightarrow> detail_state" where
  "loadShowDetails_call s = fetchShowDetails_call setLoading setError s"

definition loadShowDetails_settle ::
  "podcast_show option fetch_result \<Rightarrow> detail_state \<Rightarrow> detail_state" where
  "loadShowDetails_settle r s =
     (case fetchShowDetails_settle setLoading setError r s of
        (None, s1) \<Rightarrow> s1
      | (Some d, s1) \<Rightarrow>
          (let s2 = setShow (Some d) s1
           in if (case seasons d of None \<Rightarrow> False | Some ss \<Rightarrow> length ss > 0)
              then setSelectedSeasonIndex 0 s2
              else s2))"

definition loadShowDetails ::
  "podcast_show option fetch_result \<Rightarrow> detail_state \<Rightarrow> detail_state" where
  "loadShowDetails r s = loadShowDetails_settle r (loadShowDetails_call s)"

text \<open>\<^verbatim>\<open>handleSeasonChange\<close>: \<^verbatim>\<open>setSelectedSeasonIndex(Number(e.target.value))\<close>.\<close>

definition handleSeasonChange :: "nat \<Rightarrow> detail_state \<Rightarrow> detail_state" where
  "handleSeasonChange v s = setSelectedSeasonIndex v s"

text \<open>
  \<^verbatim>\<open>currentSeason = show.seasons[selectedSeasonIndex]\<close>: the element when the index is in
  range, \<^verbatim>\<open>undefined\<close> otherwise; reading an index of a missing \<^verbatim>\<open>seasons\<close> throws a
  \<^verbatim>\<open>TypeError\<close>.
\<close>

datatype render_error = TypeError

definition currentSeason :: "podcast_show \<Rightarrow> nat \<Rightarrow> render_error + season option" where
  "currentSeason d i =
     (case seasons d of
        None \<Rightarrow> Inl TypeError
      | Some ss \<Rightarrow> Inr (if i < length ss then Some (ss ! i) else None))"

text \<open>
  What the page renders, following the order of its early returns: the spinner while
  \<^verbatim>\<open>loading\<close>, else the error box when \<^verbatim>\<open>error\<close> is truthy, else the not-found box when
  \<^verbatim>\<open>show\<close> is \<^verbatim>\<open>null\<close>, else the detail of \<^verbatim>\<open>show\<close> with the episode list of
  \<^verbatim>\<open>currentSeason\<close> when that is defined.
\<close>

datatype view =
    LoadingView
  | ErrorView string
  | NotFoundView
  | DetailView podcast_show "season option"

definition ShowDetailPage :: "detail_state \<Rightarrow> render_error + view" where
  "ShowDetailPage s =
     (if loading s then Inr LoadingView
      else if truthy (error s) then Inr (ErrorView (''Error loading show: '' @ the (error s)))
      else (case show' s of
              None \<Rightarrow> Inr NotFoundView
            | Some d \<Rightarrow>
                (case currentSeason d (selectedSeasonIndex s) of
                   Inl e \<Rightarrow> Inl e
                 | Inr cs \<Rightarrow> Inr (DetailView d cs))))"

text \<open>
  What can happen to a mounted detail page, one event at a time: the route's \<^verbatim>\<open>id\<close> changes
  (the effect calls \<^verbatim>\<open>loadShowDetails\<close>), the request made for some \<^verbatim>\<open>id\<close> settles, or the
  user picks an option of the season select. The select exists only in the detail view, with
  one option per index of \<^verbatim>\<open>show.seasons\<close>. The \<^verbatim>\<open>id\<close>s only label the events: the code keeps
  no record of which request is current. The setter calls that one event makes are applied
  together, before the next event and before the page renders again.
\<close>

datatype event =
    IdChanged string
  | Settled string "podcast_show option fetch_result"
  | SeasonPicked nat

definition step :: "detail_state \<Rightarrow> event \<Rightarrow> detail_state" where
  "step s ev =
     (case ev of
        IdChanged i \<Rightarrow> loadShowDetails_call s
      | Settled i r \<Rightarrow> loadShowDetails_settle r s
      | SeasonPicked v \<Rightarrow>
          (case ShowDetailPage s of
             Inr (DetailView d cs) \<Rightarrow>
               (case seasons d of
                  Some ss \<Rightarrow> if v < length ss then handleSeasonChange v s else s
                | None \<Rightarrow> s)
           | _ \<Rightarrow> s))"

definition run :: "detail_state \<Rightarrow> event list \<Rightarrow> detail_state" where
  "run s evs = foldl step s evs"

text \<open>The \<^verbatim>\<open>id\<close> the route shows after a sequence of events: the last one it changed to.\<close>

fun latest_id :: "event list \<Rightarrow> string option" where
  "latest_id [] = None"
| "latest_id (ev # evs) =
     (case latest_id evs of
        Some i \<Rightarrow> Some i
      | None \<Rightarrow> (case ev of IdChanged i \<Rightarrow> Some i | _ \<Rightarrow> None))"

text \<open>
  A fetch fails when \<^verbatim>\<open>fetch\<close> rejects (transport failure), when the status is outside
  200..299 (404 or another), or when \<^verbatim>\<open>res.json()\<close> rejects (unparseable body).
\<close>

definition failed :: "'a fetch_result \<Rightarrow> bool" where
  "failed r =
     (case r of
        Inl err \<Rightarrow> True
      | Inr res \<Rightarrow> \<not> ok res \<or> (case json res of Inl err \<Rightarrow> True | Inr data \<Rightarrow> False))"

text \<open>
  The season index fits the held show: when a show is held and its \<^verbatim>\<open>seasons\<close> array is
  non-empty, \<^verbatim>\<open>selectedSeasonIndex\<close> is an index of that array.
\<close>

definition season_index_valid :: "detail_state \<Rightarrow> bool" where
  "season_index_valid s =
     (case show' s of
        None \<Rightarrow> True
      | Some d \<Rightarrow>
          (case seasons d of
             None \<Rightarrow> True
           | Some ss \<Rightarrow> ss \<noteq> [] \<longrightarrow> selectedSeasonIndex s < length ss))"

text \<open>
  An event that records no failure: anything but the settling of a request that failed.
\<close>

definition no_failure :: "event \<Rightarrow> bool" where
  "no_failure ev = (case ev of Settled i r \<Rightarrow> \<not> failed r | _ \<Rightarrow> True)"

section \<open>Sample data\<close>

definition preview_a :: podcast_preview where
  "preview_a =
     \<lparr>preview_id = ''10716'', preview_title = ''Something Was Wrong'',
      preview_image = ''a.png'', preview_seasons = 14,
      preview_updated = ''2022-11-03T07:00:00.000Z'', preview_genres = [1, 2]\<rparr>"

definition preview_b :: podcast_preview where
  "preview_b =
     \<lparr>preview_id = ''5279'', preview_title = ''This Is Actually Happening'',
      preview_image = ''b.png'', preview_seasons = 12,
      preview_updated = ''2022-11-01T10:00:00.000Z'', preview_genres = [1]\<rparr>"

definition season_one :: season where
  "season_one =
     \<lparr>season_number = 1, season_title = ''Season 1'', season_image = ''s1.png'',
      episodes = [\<lparr>episode_title = ''Pilot'', episode_description = ''0123456789'',
                    episode_file = ''e1.mp3''\<rparr>]\<rparr>"

definition season_two :: season where
  "season_two =
     \<lparr>season_number = 2, season_title = ''Season 2'', season_image = ''s2.png'',
      episodes = []\<rparr>"

definition show_a :: podcast_show where
  "show_a =
     \<lparr>show_id = ''A'', show_title = ''Show A'', show_description = ''First show'',
      show_image = ''a.png'', show_updated = ''2022-11-03T07:00:00.000Z'',
      genres = Some [1, 99], seasons = Some [season_one, season_two]\<rparr>"

definition show_b :: podcast_show where
  "show_b =
     \<lparr>show_id = ''B'', show_title = ''Show B'', show_description = ''Second show'',
      show_image = ''b.png'', show_updated = ''2022-11-01T10:00:00.000Z'',
      genres = Some [1], seasons = Some [season_one]\<rparr>"

definition show_c :: podcast_show where
  "show_c =
     \<lparr>show_id = ''C'', show_title = ''Show C'', show_description = ''No seasons yet'',
      show_image = ''c.png'', show_updated = ''2022-10-01T10:00:00.000Z'',
      genres = Some [], seasons = Some []\<rparr>"

definition reference_genres :: "genre list" where
  "reference_genres =
     [\<lparr>genre_id = 1, genre_title = ''Comedy''\<rparr>,
      \<lparr>genre_id = 2, genre_title = ''History''\<rparr>,
      \<lparr>genre_id = 2, genre_title = ''Shadowed''\<rparr>]"

definition show_d :: podcast_show where
  "show_d =
     \<lparr>show_id = ''D'', show_title = ''Show D'', show_description = ''Many genres'',
      show_image = ''d.png'', show_updated = ''2022-09-01T10:00:00.000Z'',
      genres = Some [99, 2, 99, - 5, 0, 1234567890], seasons = Some []\<rparr>"

definition show_e :: podcast_show where
  "show_e =
     \<lparr>show_id = ''E'', show_title = ''Show E'', show_description = ''No seasons property'',
      show_image = ''e.png'', show_updated = ''2022-08-01T10:00:00.000Z'',
      genres = Some [], seasons = None\<rparr>"

text \<open>A response with status 200 whose body parses to the given value.\<close>

definition ok_with :: "'a \<Rightarrow> 'a fetch_result" where
  "ok_with data = Inr \<lparr>status = 200, json = Inr data\<rparr>"

section \<open>Properties of the derived values\<close>

lemma substring_from_start: "substring s 0 n = take n s"
  by (simp add: substring_def Let_def min_def)

lemma foldl_episode_count:
  "foldl (\<lambda>acc season. acc + length (episodes season)) k ss
     = k + sum_list (map (\<lambda>season. length (episodes season)) ss)"
  by (induction ss arbitrary: k) simp_all

lemma digits_nonempty: "digits n \<noteq> []"
  by (subst digits.simps) simp

lemma number_to_string_nat: "number_to_string (int n) = digits n"
  by (simp add: number_to_string_def)

lemma upt_10: "[0 ..< 10] = [0, 1, 2, 3, 4, 5, 6, 7, 8, 9 :: nat]"
  by (simp add: upt_rec)

lemma below_ten:
  assumes "d < (10::nat)"
  obtains "d = 0" | "d = 1" | "d = 2" | "d = 3" | "d = 4" | "d = 5" | "d = 6"
    | "d = 7" | "d = 8" | "d = 9"
proof -
  from assms have "d = 0 \<or> d = 1 \<or> d = 2 \<or> d = 3 \<or> d = 4 \<or> d = 5 \<or> d = 6
      \<or> d = 7 \<or> d = 8 \<or> d = 9"
    by arith
  then show thesis
    using that by blast
qed

lemma digit_of_digit: "d < 10 \<Longrightarrow> digit_of (''0123456789'' ! d) = Some d"
  by (erule below_ten) (simp_all add: digit_of_def upt_10)

lemma digit_zero_iff: "d < 10 \<Longrightarrow> ''0123456789'' ! d = CHR ''0'' \<longleftrightarrow> d = 0"
  by (erule below_ten) simp_all

lemma digit_not_minus: "d < 10 \<Longrightarrow> ''0123456789'' ! d \<noteq> CHR ''-''"
  by (erule below_ten) simp_all

lemma digits_value_append:
  "digits_value acc (xs @ ys) =
     (case digits_value acc xs of None \<Rightarrow> None | Some m \<Rightarrow> digits_value m ys)"
  by (induction xs arbitrary: acc) (simp_all split: option.splits)

lemma digits_value_digits: "digits_value 0 (digits n) = Some n"
proof (induction n rule: digits.induct)
  case (1 n)
  show ?case
  proof (cases "n < 10")
    case True
    then show ?thesis
      by (subst digits.simps) (simp add: digit_of_digit)
  next
    case False
    with 1 have ih: "digits_value 0 (digits (n div 10)) = Some (n div 10)" by simp
    have "n mod 10 < 10" by simp
    then have d: "digit_of (''0123456789'' ! (n mod 10)) = Some (n mod 10)"
      by (rule digit_of_digit)
    from False show ?thesis
      by (subst digits.simps) (simp add: digits_value_append ih d)
  qed
qed

lemma hd_digits_zero: "hd (digits n) = CHR ''0'' \<longleftrightarrow> n = 0"
proof (induction n rule: digits.induct)
  case (1 n)
  show ?case
  proof (cases "n < 10")
    case True
    then show ?thesis
      by (subst digits.simps) (simp add: digit_zero_iff)
  next
    case False
    with 1 have ih: "hd (digits (n div 10)) = CHR ''0'' \<longleftrightarrow> n div 10 = 0" by simp
    from False have "n div 10 \<noteq> 0" by simp
    with False ih show ?thesis
      by (subst digits.simps) (simp add: hd_append digits_nonempty)
  qed
qed

lemma hd_digits_not_minus: "hd (digits n) \<noteq> CHR ''-''"
proof (induction n rule: digits.induct)
  case (1 n)
  show ?case
  proof (cases "n < 10")
    case True
    then show ?thesis
      by (subst digits.simps) (simp add: digit_not_minus)
  next
    case False
    with 1 have "hd (digits (n div 10)) \<noteq> CHR ''-''" by simp
    with False show ?thesis
      by (subst digits.simps) (simp add: hd_append digits_nonempty)
  qed
qed

lemma digits_zero: "digits 0 = ''0''"
  by (simp add: digits.simps)

lemma read_nat_digits: "read_nat (digits n) = Some n"
proof (cases "n = 0")
  case True
  then show ?thesis by (simp add: read_nat_def digits_zero digit_of_def upt_10)
next
  case False
  then show ?thesis
    by (simp add: read_nat_def digits_nonempty hd_digits_zero digits_value_digits)
qed

lemma read_int_number_to_string: "read_int (number_to_string i) = Some i"
proof (cases "i < 0")
  case True
  then have "nat (- i) \<noteq> 0" by simp
  with True show ?thesis
    by (simp add: read_int_def number_to_string_def read_nat_digits)
next
  case False
  then show ?thesis
    by (simp add: read_int_def number_to_string_def read_nat_digits digits_nonempty
        hd_digits_not_minus)
qed


lemma digit_of_Some: "digit_of c = Some v \<Longrightarrow> v < 10 \<and> c = ''0123456789'' ! v"
  by (auto simp: digit_of_def upt_10 split: if_splits)

lemma digits_value_snoc:
  "digits_value acc (xs @ [c]) = Some n \<longleftrightarrow>
     (\<exists>m v. digits_value acc xs = Some m \<and> digit_of c = Some v \<and> n = 10 * m + v)"
  by (auto simp: digits_value_append split: option.splits)

lemma digits_step: "v < 10 \<Longrightarrow> m \<noteq> 0 \<Longrightarrow> digits (10 * m + v) = digits m @ [''0123456789'' ! v]"
  by (subst digits.simps) simp

lemma digits_single: "v < 10 \<Longrightarrow> digits v = [''0123456789'' ! v]"
  by (subst digits.simps) simp

lemma digits_value_unique:
  "t \<noteq> [] \<Longrightarrow> hd t \<noteq> CHR ''0'' \<or> tl t = [] \<Longrightarrow> digits_value 0 t = Some n \<Longrightarrow> t = digits n"
proof (induction t arbitrary: n rule: rev_induct)
  case Nil
  then show ?case by simp
next
  case (snoc c xs)
  from snoc.prems(3) obtain m v where m: "digits_value 0 xs = Some m"
    and v: "digit_of c = Some v" and n: "n = 10 * m + v"
    unfolding digits_value_snoc by blast
  from v have v10: "v < 10" and c: "c = ''0123456789'' ! v"
    by (simp_all add: digit_of_Some)
  show ?case
  proof (cases "xs = []")
    case True
    with m have "m = 0" by simp
    with n v10 c True show ?thesis by (simp add: digits_single)
  next
    case False
    with snoc.prems(2) have hd: "hd xs \<noteq> CHR ''0''" by (cases xs) simp_all
    from hd have canon: "hd xs \<noteq> CHR ''0'' \<or> tl xs = []" by simp
    have xs: "xs = digits m" by (rule snoc.IH [OF False canon m])
    with hd have "m \<noteq> 0" by (simp add: hd_digits_zero)
    with v10 n c xs show ?thesis by (simp add: digits_step)
  qed
qed

lemma read_nat_unique:
  assumes "read_nat t = Some n"
  shows "t = digits n"
proof -
  from assms have "t \<noteq> []" and "hd t \<noteq> CHR ''0'' \<or> tl t = []"
    and "digits_value 0 t = Some n"
    by (auto simp: read_nat_def split: if_splits)
  then show ?thesis by (rule digits_value_unique)
qed

lemma read_int_unique: "read_int t = Some i \<Longrightarrow> t = number_to_string i"
proof (cases "t \<noteq> [] \<and> hd t = CHR ''-''")
  case True
  assume r: "read_int t = Some i"
  with True obtain n where n: "read_nat (tl t) = Some n" and "n \<noteq> 0" and i: "i = - int n"
    by (auto simp: read_int_def split: option.splits if_splits)
  from n have "tl t = digits n" by (rule read_nat_unique)
  with True have "t = CHR ''-'' # digits n" by (cases t) simp_all
  with \<open>n \<noteq> 0\<close> i show ?thesis by (simp add: number_to_string_def)
next
  case False
  assume r: "read_int t = Some i"
  with False obtain n where n: "read_nat t = Some n" and i: "i = int n"
    by (auto simp: read_int_def)
  from n have "t = digits n" by (rule read_nat_unique)
  with i show ?thesis by (simp add: number_to_string_def)
qed

lemma number_to_string_iff: "number_to_string i = t \<longleftrightarrow> read_int t = Some i"
  using read_int_number_to_string read_int_unique by blast

lemma genreTags_length:
  "genres d = Some gs \<Longrightarrow> length (genreTags (Some d) allGenres) = length gs"
  by (simp add: genreTags_def)

lemma genreTags_nth_text:
  assumes "genres d = Some gs" and "k < length gs"
  shows "tag_text (genreTags (Some d) allGenres ! k) =
           (case find (\<lambda>g. genre_id g = gs ! k) allGenres of
              Some g \<Rightarrow> genre_title g
            | None \<Rightarrow> ''Unknown ('' @ number_to_string (gs ! k) @ '')'')"
  using assms by (simp add: genreTags_def Let_def)

lemma genreTags_nth_key:
  assumes "genres d = Some gs" and "k < length gs"
  shows "tag_key (genreTags (Some d) allGenres ! k) = gs ! k"
  using assms by (simp add: genreTags_def Let_def)

text \<open>
  Claim C6. For every episode, the summary shown on its card is the first 150 characters
  of the description followed by \<^verbatim>\<open>...\<close>; a description of at most 150 characters is shown
  whole and still gets the marker.
\<close>

theorem episodeSummary_truncates_and_appends:
  "episodeSummary e = take 150 (episode_description e) @ ''...''
   \<and> (length (episode_description e) \<le> 150 \<longrightarrow>
        episodeSummary e = episode_description e @ ''...'')"
  by (simp add: episodeSummary_def substring_from_start)

theorem episodeSummary_ten_characters:
  "length ''0123456789'' \<le> (150::nat)
   \<and> episodeSummary \<lparr>episode_title = ''Pilot'', episode_description = ''0123456789'',
        episode_file = ''a.mp3''\<rparr> = ''0123456789...''"
  using episodeSummary_truncates_and_appends
    [of "\<lparr>episode_title = ''Pilot'', episode_description = ''0123456789'',
        episode_file = ''a.mp3''\<rparr>"]
  by simp

text \<open>
  Claim C7. For a show whose \<^verbatim>\<open>genres\<close> array is \<open>gs\<close>, the genre tags are as many as \<open>gs\<close>
  and in its order, the \<open>k\<close>-th tag belonging to the \<open>k\<close>-th id (nothing is merged or
  dropped). Its text is the title of the first reference genre whose id equals that id.
  When no reference genre has that id, and the id is an integer of magnitude below \<open>2^53\<close>,
  the text is \<^verbatim>\<open>Unknown (<id>)\<close> with the id printed as its decimal numeral: the one string
  that reads back as the id. The tags are a function of the show and the reference list
  alone, so the same inputs give the same tags.
\<close>

theorem genreTags_labels:
  assumes "genres d = Some gs"
  shows "length (genreTags (Some d) allGenres) = length gs
    \<and> (\<forall>k < length gs.
          tag_key (genreTags (Some d) allGenres ! k) = gs ! k
        \<and> (\<forall>j < length allGenres.
              genre_id (allGenres ! j) = gs ! k
              \<and> (\<forall>j' < j. genre_id (allGenres ! j') \<noteq> gs ! k) \<longrightarrow>
              tag_text (genreTags (Some d) allGenres ! k) = genre_title (allGenres ! j))
        \<and> ((\<forall>g \<in> set allGenres. genre_id g \<noteq> gs ! k) \<and> \<bar>gs ! k\<bar> < 2 ^ 53 \<longrightarrow>
              tag_text (genreTags (Some d) allGenres ! k)
                = ''Unknown ('' @ number_to_string (gs ! k) @ '')''
              \<and> read_int (number_to_string (gs ! k)) = Some (gs ! k)
              \<and> (\<forall>t. read_int t = Some (gs ! k) \<longrightarrow> t = number_to_string (gs ! k))))"
proof (intro conjI allI impI)
  show "length (genreTags (Some d) allGenres) = length gs"
    using assms by (rule genreTags_length)
next
  fix k assume "k < length gs"
  then show "tag_key (genreTags (Some d) allGenres ! k) = gs ! k"
    using assms by (simp add: genreTags_nth_key)
next
  fix k j
  assume k: "k < length gs" and j: "j < length allGenres"
    and first: "genre_id (allGenres ! j) = gs ! k
                \<and> (\<forall>j' < j. genre_id (allGenres ! j') \<noteq> gs ! k)"
  from j first have "find (\<lambda>g. genre_id g = gs ! k) allGenres = Some (allGenres ! j)"
    unfolding find_Some_iff by blast
  with assms k show "tag_text (genreTags (Some d) allGenres ! k) = genre_title (allGenres ! j)"
    by (simp add: genreTags_nth_text)
next
  fix k
  assume k: "k < length gs"
    and none: "(\<forall>g \<in> set allGenres. genre_id g \<noteq> gs ! k) \<and> \<bar>gs ! k\<bar> < 2 ^ 53"
  from none have "find (\<lambda>g. genre_id g = gs ! k) allGenres = None"
    unfolding find_None_iff by blast
  with assms k show "tag_text (genreTags (Some d) allGenres ! k)
                = ''Unknown ('' @ number_to_string (gs ! k) @ '')''"
    by (simp add: genreTags_nth_text)
next
  fix k
  show "read_int (number_to_string (gs ! k)) = Some (gs ! k)"
    by (rule read_int_number_to_string)
next
  fix k t
  assume "read_int t = Some (gs ! k)"
  then show "t = number_to_string (gs ! k)"
    by (rule read_int_unique)
qed

text \<open>
  The ids 1 and 99 against the single reference genre Comedy; and a show with a repeated
  unknown id, a negative id, zero and a ten-digit id against a reference list in which id 2
  occurs twice.
\<close>

theorem genreTags_comedy_and_unknown:
  "genres \<lparr>show_id = ''1'', show_title = ''T'', show_description = ''D'',
            show_image = ''I'', show_updated = ''U'', genres = Some [1, 99],
            seasons = Some []\<rparr> = Some [1, 99]
   \<and> map tag_text
       (genreTags (Some \<lparr>show_id = ''1'', show_title = ''T'', show_description = ''D'',
                     show_image = ''I'', show_updated = ''U'', genres = Some [1, 99],
                     seasons = Some []\<rparr>)
          [\<lparr>genre_id = 1, genre_title = ''Comedy''\<rparr>])
     = [''Comedy'', ''Unknown (99)'']
   \<and> genres show_d = Some [99, 2, 99, - 5, 0, 1234567890]
   \<and> map tag_text (genreTags (Some show_d) reference_genres)
     = [''Unknown (99)'', ''History'', ''Unknown (99)'', ''Unknown (-5)'', ''Unknown (0)'',
        ''Unknown (1234567890)'']
   \<and> read_int ''1234567890'' = Some 1234567890
   \<and> read_int ''-5'' = Some (- 5)"
proof -
  let ?d = "\<lparr>show_id = ''1'', show_title = ''T'', show_description = ''D'',
            show_image = ''I'', show_updated = ''U'', genres = Some [1, 99 :: int],
            seasons = Some []\<rparr>"
  let ?ref = "[\<lparr>genre_id = 1, genre_title = ''Comedy''\<rparr>]"
  have g: "genres ?d = Some [1, 99]" by simp
  have gd: "genres show_d = Some [99, 2, 99, - 5, 0, 1234567890]" by (simp add: show_d_def)
  have n99: "number_to_string 99 = ''99''"
    by (simp add: number_to_string_def digits.simps)
  have nm5: "number_to_string (- 5) = ''-5''"
    by (simp add: number_to_string_def digits.simps)
  have n0: "number_to_string 0 = ''0''"
    by (simp add: number_to_string_def digits.simps)
  have nbig: "number_to_string 1234567890 = ''1234567890''"
    by (simp add: number_to_string_def digits.simps)
  note th = genreTags_labels [OF g, of ?ref]
  from th have len: "length (genreTags (Some ?d) ?ref) = 2" by simp
  from th have t0: "tag_text (genreTags (Some ?d) ?ref ! 0) = ''Comedy''"
    by (simp add: All_less_Suc2)
  from th have t1: "tag_text (genreTags (Some ?d) ?ref ! 1) = ''Unknown (99)''"
    by (simp add: n99)
  have first: "map tag_text (genreTags (Some ?d) ?ref) = [''Comedy'', ''Unknown (99)'']"
    using len t0 t1 by (simp add: list_eq_iff_nth_eq All_less_Suc2 numeral_2_eq_2)
  note thd = genreTags_labels [OF gd, of reference_genres]
  from thd have lend: "length (genreTags (Some show_d) reference_genres) = 6" by simp
  have unmatched: "tag_text (genreTags (Some show_d) reference_genres ! k)
      = ''Unknown ('' @ number_to_string ([99, 2, 99, - 5, 0, 1234567890] ! k) @ '')''"
    if "k < 6" and "\<forall>g \<in> set reference_genres. genre_id g \<noteq> [99, 2, 99, - 5, 0, 1234567890] ! k"
      and "\<bar>[99, 2, 99, - 5, 0, 1234567890 :: int] ! k\<bar> < 2 ^ 53"
    for k
    using thd that by simp
  have d0: "tag_text (genreTags (Some show_d) reference_genres ! 0) = ''Unknown (99)''"
    using unmatched [of 0] by (simp add: reference_genres_def n99)
  have d2: "tag_text (genreTags (Some show_d) reference_genres ! 2) = ''Unknown (99)''"
    using unmatched [of 2] by (simp add: reference_genres_def n99)
  have d3: "tag_text (genreTags (Some show_d) reference_genres ! 3) = ''Unknown (-5)''"
    using unmatched [of 3] by (simp add: reference_genres_def nm5)
  have d4: "tag_text (genreTags (Some show_d) reference_genres ! 4) = ''Unknown (0)''"
    using unmatched [of 4] by (simp add: reference_genres_def n0)
  have d5: "tag_text (genreTags (Some show_d) reference_genres ! 5) = ''Unknown (1234567890)''"
    using unmatched [of 5] by (simp add: reference_genres_def nbig)
  have "length reference_genres = 3" by (simp add: reference_genres_def)
  with thd have "genre_id (reference_genres ! 1) = [99, 2, 99, - 5, 0, 1234567890] ! 1
        \<and> (\<forall>j' < 1. genre_id (reference_genres ! j') \<noteq> [99, 2, 99, - 5, 0, 1234567890] ! 1)
      \<longrightarrow> tag_text (genreTags (Some show_d) reference_genres ! 1)
            = genre_title (reference_genres ! 1)"
    by simp
  then have d1: "tag_text (genreTags (Some show_d) reference_genres ! 1) = ''History''"
    by (simp add: reference_genres_def)
  have second: "map tag_text (genreTags (Some show_d) reference_genres)
     = [''Unknown (99)'', ''History'', ''Unknown (99)'', ''Unknown (-5)'', ''Unknown (0)'',
        ''Unknown (1234567890)'']"
  proof (rule nth_equalityI)
    show "length (map tag_text (genreTags (Some show_d) reference_genres))
        = length [''Unknown (99)'', ''History'', ''Unknown (99)'', ''Unknown (-5)'',
                  ''Unknown (0)'', ''Unknown (1234567890)'']"
      using lend by simp
  next
    fix i
    assume "i < length (map tag_text (genreTags (Some show_d) reference_genres))"
    with lend have "i < 6" by simp
    then have "i = 0 \<or> i = 1 \<or> i = 2 \<or> i = 3 \<or> i = 4 \<or> i = 5" by arith
    then show "map tag_text (genreTags (Some show_d) reference_genres) ! i
        = [''Unknown (99)'', ''History'', ''Unknown (99)'', ''Unknown (-5)'',
           ''Unknown (0)'', ''Unknown (1234567890)''] ! i"
      using lend d0 d1 d2 d3 d4 d5 by auto
  qed
  from thd nbig nm5 have r1: "read_int ''1234567890'' = Some 1234567890"
    using read_int_number_to_string [of 1234567890] by simp
  from nm5 have r2: "read_int ''-5'' = Some (- 5)"
    using read_int_number_to_string [of "- 5"] by simp
  from g first gd second r1 r2 show ?thesis by simp
qed


text \<open>
  Claim C8. For a show whose \<^verbatim>\<open>seasons\<close> array is \<open>ss\<close>, the total episode count is the sum of
  the lengths of the seasons' episode arrays, and it is 0 when \<open>ss\<close> is empty.
\<close>

theorem totalEpisodes_sum:
  "seasons d = Some ss \<Longrightarrow>
     totalEpisodes (Some d) = sum_list (map (\<lambda>season. length (episodes season)) ss)
     \<and> (ss = [] \<longrightarrow> totalEpisodes (Some d) = 0)"
  by (simp add: totalEpisodes_def foldl_episode_count)

theorem totalEpisodes_three_and_zero:
  "totalEpisodes
     (Some \<lparr>show_id = ''1'', show_title = ''T'', show_description = ''D'',
            show_image = ''I'', show_updated = ''U'', genres = Some [],
            seasons = Some
              [\<lparr>season_number = 1, season_title = ''S1'', season_image = ''I1'',
                 episodes = [\<lparr>episode_title = ''a'', episode_description = ''da'',
                               episode_file = ''fa''\<rparr>,
                             \<lparr>episode_title = ''b'', episode_description = ''db'',
                               episode_file = ''fb''\<rparr>]\<rparr>,
               \<lparr>season_number = 2, season_title = ''S2'', season_image = ''I2'',
                 episodes = [\<lparr>episode_title = ''c'', episode_description = ''dc'',
                               episode_file = ''fc''\<rparr>]\<rparr>]\<rparr>) = 3
   \<and> totalEpisodes
     (Some \<lparr>show_id = ''2'', show_title = ''T'', show_description = ''D'',
            show_image = ''I'', show_updated = ''U'', genres = Some [],
            seasons = Some []\<rparr>) = 0"
proof -
  let ?ss = "[\<lparr>season_number = 1, season_title = ''S1'', season_image = ''I1'',
                 episodes = [\<lparr>episode_title = ''a'', episode_description = ''da'',
                               episode_file = ''fa''\<rparr>,
                             \<lparr>episode_title = ''b'', episode_description = ''db'',
                               episode_file = ''fb''\<rparr>]\<rparr>,
               \<lparr>season_number = 2, season_title = ''S2'', season_image = ''I2'',
                 episodes = [\<lparr>episode_title = ''c'', episode_description = ''dc'',
                               episode_file = ''fc''\<rparr>]\<rparr>]"
  let ?d3 = "\<lparr>show_id = ''1'', show_title = ''T'', show_description = ''D'',
            show_image = ''I'', show_updated = ''U'', genres = Some [],
            seasons = Some ?ss\<rparr>"
  let ?d0 = "\<lparr>show_id = ''2'', show_title = ''T'', show_description = ''D'',
            show_image = ''I'', show_updated = ''U'', genres = Some [],
            seasons = Some []\<rparr>"
  have s3: "seasons ?d3 = Some ?ss" by simp
  have s0: "seasons ?d0 = Some []" by simp
  from totalEpisodes_sum [OF s3] have "totalEpisodes (Some ?d3) = 3" by simp
  moreover from totalEpisodes_sum [OF s0] have "totalEpisodes (Some ?d0) = 0" by simp
  ultimately show ?thesis by simp
qed

section \<open>Properties of the fetch helpers and of the page state\<close>

lemmas detail_setters = setShow_def setLoading_def setError_def setSelectedSeasonIndex_def

lemmas load_defs = loadShowDetails_def loadShowDetails_call_def loadShowDetails_settle_def
  fetchShowDetails_call_def fetchShowDetails_settle_def

lemma try_ok: "ok res \<Longrightarrow> json res = Inr data \<Longrightarrow> fetchShowDetails_try (Inr res) = Inr data"
  by (simp add: fetchShowDetails_try_def)

lemma try_ok_with: "fetchShowDetails_try (ok_with data) = Inr data"
  by (simp add: fetchShowDetails_try_def ok_with_def ok_def)

lemma failed_iff: "failed r \<longleftrightarrow> (\<exists>e. fetchShowDetails_try r = Inl e)"
  by (auto simp: failed_def fetchShowDetails_try_def split: sum.splits)

lemma settle_eq:
  "loadShowDetails_settle r s =
     (case fetchShowDetails_try r of
        Inl e \<Rightarrow> s\<lparr>loading := False, error := Some (message e)\<rparr>
      | Inr None \<Rightarrow> s\<lparr>loading := False\<rparr>
      | Inr (Some d) \<Rightarrow>
          (if (case seasons d of None \<Rightarrow> False | Some ss \<Rightarrow> ss \<noteq> [])
           then s\<lparr>loading := False, show' := Some d, selectedSeasonIndex := 0\<rparr>
           else s\<lparr>loading := False, show' := Some d\<rparr>))"
  by (simp add: load_defs detail_setters split: sum.splits option.splits)

lemma try_404:
  "fetchShowDetails_try (Inr \<lparr>status = 404, json = j\<rparr>) = Inl (Error ''Show not found.'')"
  by (simp add: fetchShowDetails_try_def ok_def)

lemma try_rejected: "fetchShowDetails_try (Inl e) = Inl e"
  by (simp add: fetchShowDetails_try_def)

lemma call_state: "loadShowDetails_call s = s\<lparr>loading := True, error := None\<rparr>"
  by (simp add: load_defs detail_setters)

lemma run_Nil: "run s [] = s"
  by (simp add: run_def)

lemma run_Cons: "run s (ev # evs) = run (step s ev) evs"
  by (simp add: run_def)

lemma step_IdChanged: "step s (IdChanged i) = loadShowDetails_call s"
  by (simp add: step_def)

lemma step_Settled: "step s (Settled i r) = loadShowDetails_settle r s"
  by (simp add: step_def)

lemma step_SeasonPicked:
  "step s (SeasonPicked v) =
     (case ShowDetailPage s of
        Inr (DetailView d cs) \<Rightarrow>
          (case seasons d of
             Some ss \<Rightarrow> if v < length ss then s\<lparr>selectedSeasonIndex := v\<rparr> else s
           | None \<Rightarrow> s)
      | _ \<Rightarrow> s)"
  by (simp add: step_def handleSeasonChange_def setSelectedSeasonIndex_def
      split: sum.splits view.splits option.splits)

lemma page_detail_is_held_show:
  "ShowDetailPage s = Inr (DetailView d cs) \<Longrightarrow> show' s = Some d"
  by (auto simp: ShowDetailPage_def split: if_splits option.splits sum.splits)

lemma call_preserves_valid:
  "season_index_valid s \<Longrightarrow> season_index_valid (loadShowDetails_call s)"
  by (simp add: season_index_valid_def call_state split: option.splits)

lemma settle_preserves_valid:
  "season_index_valid s \<Longrightarrow> season_index_valid (loadShowDetails_settle r s)"
  by (auto simp: season_index_valid_def settle_eq split: sum.splits option.splits)

lemma pick_preserves_valid:
  assumes "season_index_valid s"
  shows "season_index_valid (step s (SeasonPicked v))"
proof (cases "ShowDetailPage s")
  case (Inl e)
  with assms show ?thesis by (simp add: step_SeasonPicked)
next
  case (Inr vw)
  show ?thesis
  proof (cases vw)
    case (DetailView d cs)
    with Inr have held: "show' s = Some d" by (simp add: page_detail_is_held_show)
    show ?thesis
      using assms Inr DetailView held
      by (auto simp: step_SeasonPicked season_index_valid_def split: option.splits)
  qed (use assms Inr in \<open>simp_all add: step_SeasonPicked\<close>)
qed

lemma step_preserves_valid: "season_index_valid s \<Longrightarrow> season_index_valid (step s ev)"
  by (cases ev)
    (simp_all add: step_IdChanged step_Settled call_preserves_valid settle_preserves_valid
      pick_preserves_valid)

lemma run_preserves_valid: "season_index_valid s \<Longrightarrow> season_index_valid (run s evs)"
  by (induction evs arbitrary: s) (simp_all add: run_Nil run_Cons step_preserves_valid)

lemma initial_valid: "season_index_valid detail_initial"
  by (simp add: season_index_valid_def detail_initial_def)

lemma step_keeps_error_clear:
  assumes "error st = None" and "no_failure ev"
  shows "error (step st ev) = None"
proof (cases ev)
  case (IdChanged i)
  then show ?thesis by (simp add: step_IdChanged call_state)
next
  case (Settled i r)
  with assms(2) have "\<not> failed r" by (simp add: no_failure_def)
  then obtain data where "fetchShowDetails_try r = Inr data"
    unfolding failed_iff by (cases "fetchShowDetails_try r") auto
  with assms(1) Settled show ?thesis
    by (simp add: step_Settled settle_eq split: option.splits)
next
  case (SeasonPicked v)
  with assms(1) show ?thesis
    by (simp add: step_SeasonPicked split: sum.splits view.splits option.splits)
qed

lemma run_keeps_error_clear:
  "error st = None \<Longrightarrow> \<forall>ev \<in> set evs. no_failure ev \<Longrightarrow> error (run st evs) = None"
  by (induction evs arbitrary: st) (simp_all add: run_Nil run_Cons step_keeps_error_clear)

lemma not_ok_iff: "\<not> ok res \<longleftrightarrow> status res < 200 \<or> 299 < status res"
  by (auto simp: ok_def)

text \<open>
  Claim C9. When the catalog response is successful and its body parses to the array
  \<open>data\<close>, \<^verbatim>\<open>fetchPodcasts\<close> hands exactly \<open>data\<close> to \<^verbatim>\<open>setPodcasts\<close>: the list held by \<^verbatim>\<open>App\<close>
  has the same length and the same element at every position, nothing is validated,
  filtered or reordered; no error is recorded and the loading flag is cleared.
\<close>

theorem fetchPodcasts_passes_body_through:
  assumes "ok res" and "json res = Inr data"
  shows "fetchPodcasts_try (Inr res) = Inr data
    \<and> podcasts (App_effect (Inr res) s) = data
    \<and> length (podcasts (App_effect (Inr res) s)) = length data
    \<and> (\<forall>k < length data. podcasts (App_effect (Inr res) s) ! k = data ! k)
    \<and> podcasts_error (App_effect (Inr res) s) = podcasts_error s
    \<and> \<not> podcasts_loading (App_effect (Inr res) s)"
  using assms by (simp add: fetchPodcasts_try_def App_effect_def fetchPodcasts_def)

text \<open>The catalog of two previews arrives in the order the server sent it.\<close>

theorem fetchPodcasts_two_previews:
  "ok \<lparr>status = 200, json = Inr [preview_b, preview_a]\<rparr>
   \<and> podcasts (App_effect (Inr \<lparr>status = 200, json = Inr [preview_b, preview_a]\<rparr>) app_initial)
       = [preview_b, preview_a]
   \<and> App_blocks (App_effect (Inr \<lparr>status = 200, json = Inr [preview_b, preview_a]\<rparr>) app_initial)
       = [GridAndPagination]"
proof -
  let ?res = "\<lparr>status = 200, json = Inr [preview_b, preview_a]\<rparr>"
  have o: "ok ?res" by (simp add: ok_def)
  have j: "json ?res = Inr [preview_b, preview_a]" by simp
  from fetchPodcasts_passes_body_through [OF o j, of app_initial]
  show ?thesis using o by (simp add: App_blocks_def app_initial_def truthy_def)
qed

text \<open>
  Claim C4, as the code has it. When the response to the show-detail request has status 404,
  the \<^verbatim>\<open>try\<close> block ends in an error whose message is exactly \<^verbatim>\<open>Show not found.\<close>; the call
  returns \<^verbatim>\<open>null\<close>, no success value, records that message as the error and clears the
  loading flag, in whatever state the response arrives. The error is a plain \<^verbatim>\<open>Error\<close>, told
  from other failures by its message alone.
\<close>

theorem fetchShowDetails_404:
  assumes "status res = 404"
  shows "fetchShowDetails_try (Inr res) = Inl (Error ''Show not found.'')
    \<and> fst (fetchShowDetails setLoading setError (Inr res) s) = None
    \<and> error (snd (fetchShowDetails setLoading setError (Inr res) s)) = Some ''Show not found.''
    \<and> \<not> loading (snd (fetchShowDetails setLoading setError (Inr res) s))
    \<and> fst (fetchShowDetails_settle setLoading setError (Inr res) s) = None
    \<and> error (snd (fetchShowDetails_settle setLoading setError (Inr res) s))
        = Some ''Show not found.''
    \<and> \<not> loading (snd (fetchShowDetails_settle setLoading setError (Inr res) s))"
  using assms
  by (simp add: fetchShowDetails_try_def ok_def fetchShowDetails_def fetchShowDetails_settle_def
      fetchShowDetails_call_def setLoading_def setError_def)

text \<open>A 404 whose body would even parse to a show still yields the not-found message.\<close>

theorem fetchShowDetails_404_witness:
  "status \<lparr>status = 404, json = Inr (Some show_a)\<rparr> = 404
   \<and> fetchShowDetails setLoading setError (Inr \<lparr>status = 404, json = Inr (Some show_a)\<rparr>)
        detail_initial
       = (None, \<lparr>show' = None, loading = False, error = Some ''Show not found.'',
                 selectedSeasonIndex = 0\<rparr>)"
proof -
  let ?res = "\<lparr>status = 404, json = Inr (Some show_a)\<rparr>"
  have st: "status ?res = 404" by simp
  from fetchShowDetails_404 [OF st, of detail_initial] st show ?thesis
    by (simp add: prod_eq_iff fetchShowDetails_def fetchShowDetails_settle_def
        fetchShowDetails_call_def setLoading_def setError_def detail_initial_def)
qed

text \<open>
  Claim C4 as stated fails: the result carries no error kind. A response with status 404 and
  a rejected \<^verbatim>\<open>fetch\<close> whose message happens to be \<^verbatim>\<open>Show not found.\<close> end the \<^verbatim>\<open>try\<close> block
  in the same error and give the same return value and state.
\<close>

theorem not_found_has_no_kind_counterexample:
  "fetchShowDetails_try (Inr \<lparr>status = 404, json = Inr (Some show_a)\<rparr>)
     = fetchShowDetails_try (Inl (Error ''Show not found.''))
   \<and> fetchShowDetails setLoading setError (Inr \<lparr>status = 404, json = Inr (Some show_a)\<rparr>)
        detail_initial
     = fetchShowDetails setLoading setError (Inl (Error ''Show not found.'')) detail_initial"
  by (simp add: fetchShowDetails_try_def ok_def fetchShowDetails_def fetchShowDetails_settle_def)


text \<open>
  Claim C5. For every status outside 200..299 both helpers end in an error and no data is
  stored or returned. \<^verbatim>\<open>fetchPodcasts\<close> leaves the podcast list as it was and records the
  status as the error, which \<^verbatim>\<open>App\<close> shows as
  \<^verbatim>\<open>Error occurred while fetching podcasts: <status>\<close>. \<^verbatim>\<open>fetchShowDetails\<close> returns \<^verbatim>\<open>null\<close>
  and records \<^verbatim>\<open>Failed to fetch show details: <status>\<close>, or \<^verbatim>\<open>Show not found.\<close> for 404;
  the detail page stores no show.
\<close>

theorem non_2xx_is_error:
  assumes "status cres < 200 \<or> 299 < status cres"
    and "status dres < 200 \<or> 299 < status dres"
  shows "podcasts (App_effect (Inr cres) a) = podcasts a
    \<and> podcasts_error (App_effect (Inr cres) a) = Some (number_to_string (int (status cres)))
    \<and> App_blocks (App_effect (Inr cres) a)
        = [PodcastsError (''Error occurred while fetching podcasts: ''
                           @ number_to_string (int (status cres)))]
    \<and> fst (fetchShowDetails setLoading setError (Inr dres) s) = None
    \<and> error (snd (fetchShowDetails setLoading setError (Inr dres) s))
        = Some (if status dres = 404 then ''Show not found.''
                else ''Failed to fetch show details: '' @ number_to_string (int (status dres)))
    \<and> show' (loadShowDetails (Inr dres) s) = show' s"
proof -
  from assms(1) have c: "\<not> ok cres" by (simp add: not_ok_iff)
  from assms(2) have d: "\<not> ok dres" by (simp add: not_ok_iff)
  have ctry: "fetchPodcasts_try (Inr cres) = Inl (Error (number_to_string (int (status cres))))"
    using c by (simp add: fetchPodcasts_try_def)
  have dtry: "fetchShowDetails_try (Inr dres)
      = Inl (Error (if status dres = 404 then ''Show not found.''
                    else ''Failed to fetch show details: ''
                           @ number_to_string (int (status dres))))"
    using d by (simp add: fetchShowDetails_try_def)
  have app: "App_effect (Inr cres) a
      = a\<lparr>podcasts_error := Some (number_to_string (int (status cres))),
           podcasts_loading := False\<rparr>"
    by (simp add: App_effect_def fetchPodcasts_def ctry)
  have nonempty: "number_to_string (int (status cres)) \<noteq> []"
    by (simp add: number_to_string_nat digits_nonempty)
  have blocks: "App_blocks (App_effect (Inr cres) a)
        = [PodcastsError (''Error occurred while fetching podcasts: ''
                           @ number_to_string (int (status cres)))]"
    using nonempty by (simp add: app App_blocks_def truthy_def)
  have ret: "fetchShowDetails setLoading setError (Inr dres) s
      = (None, setLoading False (setError (Some (message
            (Error (if status dres = 404 then ''Show not found.''
                    else ''Failed to fetch show details: ''
                           @ number_to_string (int (status dres))))))
          (fetchShowDetails_call setLoading setError s)))"
    by (simp add: fetchShowDetails_def fetchShowDetails_settle_def dtry)
  have held: "show' (loadShowDetails (Inr dres) s) = show' s"
    by (simp add: loadShowDetails_def settle_eq dtry call_state)
  show ?thesis
    using blocks held by (simp add: app ret setLoading_def setError_def)
qed

text \<open>Status 500 on the catalog and status 503 on a show, from the initial states.\<close>

theorem non_2xx_is_error_witness:
  "(status \<lparr>status = 500, json = Inr [preview_a]\<rparr> < 200
      \<or> 299 < status \<lparr>status = 500, json = Inr [preview_a]\<rparr>)
   \<and> (status \<lparr>status = 503, json = Inr (Some show_a)\<rparr> < 200
      \<or> 299 < status \<lparr>status = 503, json = Inr (Some show_a)\<rparr>)
   \<and> podcasts (App_effect (Inr \<lparr>status = 500, json = Inr [preview_a]\<rparr>) app_initial) = []
   \<and> App_blocks (App_effect (Inr \<lparr>status = 500, json = Inr [preview_a]\<rparr>) app_initial)
       = [PodcastsError ''Error occurred while fetching podcasts: 500'']
   \<and> fst (fetchShowDetails setLoading setError
            (Inr \<lparr>status = 503, json = Inr (Some show_a)\<rparr>) detail_initial) = None
   \<and> error (snd (fetchShowDetails setLoading setError
            (Inr \<lparr>status = 503, json = Inr (Some show_a)\<rparr>) detail_initial))
       = Some ''Failed to fetch show details: 503''"
proof -
  let ?c = "\<lparr>status = 500, json = Inr [preview_a]\<rparr>"
  let ?d = "\<lparr>status = 503, json = Inr (Some show_a)\<rparr>"
  have c: "status ?c < 200 \<or> 299 < status ?c" by simp
  have d: "status ?d < 200 \<or> 299 < status ?d" by simp
  have n500: "number_to_string 500 = ''500''"
    by (simp add: number_to_string_def digits.simps)
  have n503: "number_to_string 503 = ''503''"
    by (simp add: number_to_string_def digits.simps)
  from non_2xx_is_error [OF c d, of app_initial detail_initial] show ?thesis
    by (simp add: n500 n503 app_initial_def)
qed

text \<open>
  Claim C2, as the code has it. A failed show-detail fetch (404, another status outside
  200..299, a transport or a parse failure) never changes the held show. Its call leaves the
  held show as it is, and so does its failing completion, in whatever state the failure
  arrives, also after other requests were called or completed in between: the show held
  just before the failure, absent or loaded earlier, is the show held after it. The
  completion leaves the season index too, records the failure's message as the error and
  clears the loading flag.
\<close>

theorem failed_fetch_keeps_held_show:
  assumes "failed r"
  shows "show' (loadShowDetails_call s) = show' s
    \<and> show' (loadShowDetails_settle r s) = show' s
    \<and> selectedSeasonIndex (loadShowDetails_settle r s) = selectedSeasonIndex s
    \<and> (\<exists>e. fetchShowDetails_try r = Inl e
             \<and> error (loadShowDetails_settle r s) = Some (message e))
    \<and> \<not> loading (loadShowDetails_settle r s)
    \<and> show' (loadShowDetails_settle r (run (loadShowDetails_call s) evs))
        = show' (run (loadShowDetails_call s) evs)"
proof -
  from assms obtain e where e: "fetchShowDetails_try r = Inl e"
    unfolding failed_iff by blast
  then show ?thesis
    by (simp add: settle_eq call_state)
qed

text \<open>
  A transport failure while show A is held: A stays, the message is recorded. And a
  transport failure of a first request that arrives after a second request has loaded show
  B: B stays.
\<close>

theorem failed_fetch_keeps_held_show_witness:
  "failed (Inl (Error ''Failed to fetch'') :: podcast_show option fetch_result)
   \<and> show' (loadShowDetails_settle (Inl (Error ''Failed to fetch''))
        \<lparr>show' = Some show_a, loading = False, error = None, selectedSeasonIndex = 1\<rparr>)
       = Some show_a
   \<and> error (loadShowDetails_settle (Inl (Error ''Failed to fetch''))
        \<lparr>show' = Some show_a, loading = False, error = None, selectedSeasonIndex = 1\<rparr>)
       = Some ''Failed to fetch''
   \<and> show' (loadShowDetails_settle (Inl (Error ''Failed to fetch''))
        (run (loadShowDetails_call detail_initial)
           [IdChanged ''B'', Settled ''B'' (ok_with (Some show_b))]))
       = Some show_b"
proof -
  let ?r = "Inl (Error ''Failed to fetch'') :: podcast_show option fetch_result"
  let ?s = "\<lparr>show' = Some show_a, loading = False, error = None, selectedSeasonIndex = 1\<rparr>"
  let ?evs = "[IdChanged ''B'', Settled ''B'' (ok_with (Some show_b))]"
  have f: "failed ?r" by (simp add: failed_def)
  have held: "show' (run (loadShowDetails_call detail_initial) ?evs) = Some show_b"
    by (simp add: run_Cons run_Nil step_IdChanged step_Settled call_state settle_eq
        try_ok_with)
  from failed_fetch_keeps_held_show [OF f, of ?s]
    failed_fetch_keeps_held_show [OF f, of detail_initial ?evs] f held
  show ?thesis
    by (simp add: try_rejected)
qed


text \<open>
  Claim C2 as stated fails: show A is loaded, the route changes to B, and the request for B
  ends in 404. The page still holds A's detail, which is neither replaced nor absent.
\<close>

theorem stale_show_counterexample:
  "failed (Inr \<lparr>status = 404, json = Inr None\<rparr> :: podcast_show option fetch_result)
   \<and> show' (run detail_initial
        [IdChanged ''A'', Settled ''A'' (ok_with (Some show_a)),
         IdChanged ''B'', Settled ''B'' (Inr \<lparr>status = 404, json = Inr None\<rparr>)]) = Some show_a
   \<and> show_id show_a \<noteq> ''B''"
  by (simp add: run_Cons run_Nil step_IdChanged step_Settled call_state settle_eq try_ok_with
      try_404 ok_def failed_def show_a_def detail_initial_def)

text \<open>
  Claim C1, as the code has it. Two requests are in flight, for \<open>a\<close> and then for \<open>b\<close>, and
  both succeed with a show. The page then displays the show of the response that settles
  last: \<open>b\<close>'s when the responses arrive in the order of the requests, \<open>a\<close>'s when \<open>a\<close>'s
  response arrives after \<open>b\<close>'s. The season displayed is the show's first one, if it has any.
\<close>

theorem last_settled_response_is_shown:
  assumes "ok resA" and "json resA = Inr (Some dA)" and "seasons dA = Some ssA"
    and "ok resB" and "json resB = Inr (Some dB)" and "seasons dB = Some ssB"
  shows "ShowDetailPage (run s [IdChanged a, IdChanged b, Settled a (Inr resA), Settled b (Inr resB)])
           = Inr (DetailView dB (case ssB of [] \<Rightarrow> None | x # xs \<Rightarrow> Some x))
       \<and> ShowDetailPage (run s [IdChanged a, IdChanged b, Settled b (Inr resB), Settled a (Inr resA)])
           = Inr (DetailView dA (case ssA of [] \<Rightarrow> None | x # xs \<Rightarrow> Some x))"
proof -
  have tA: "fetchShowDetails_try (Inr resA) = Inr (Some dA)"
    using assms(1,2) by (rule try_ok)
  have tB: "fetchShowDetails_try (Inr resB) = Inr (Some dB)"
    using assms(4,5) by (rule try_ok)
  have page: "ShowDetailPage (loadShowDetails_settle (Inr res) st)
                = Inr (DetailView d (case ss of [] \<Rightarrow> None | x # xs \<Rightarrow> Some x))"
    if "fetchShowDetails_try (Inr res) = Inr (Some d)" and "seasons d = Some ss"
      and "error st = None"
    for res d ss st
    using that
    by (cases ss) (simp_all add: settle_eq ShowDetailPage_def truthy_def currentSeason_def)
  have errA: "error (loadShowDetails_settle (Inr resA) (loadShowDetails_call st)) = None" for st
    by (simp add: settle_eq tA call_state)
  have errB: "error (loadShowDetails_settle (Inr resB) (loadShowDetails_call st)) = None" for st
    by (simp add: settle_eq tB call_state)
  show ?thesis
    by (simp only: run_Cons run_Nil step_IdChanged step_Settled
        page [OF tB assms(6) errA] page [OF tA assms(3) errB] simp_thms)
qed

text \<open>Shows A and B, requested in this order and answered in either order.\<close>

theorem last_settled_response_is_shown_witness:
  "ok \<lparr>status = 200, json = Inr (Some show_a)\<rparr>
   \<and> ok \<lparr>status = 200, json = Inr (Some show_b)\<rparr>
   \<and> seasons show_a = Some [season_one, season_two]
   \<and> seasons show_b = Some [season_one]
   \<and> ShowDetailPage (run detail_initial
        [IdChanged ''A'', IdChanged ''B'', Settled ''A'' (ok_with (Some show_a)),
         Settled ''B'' (ok_with (Some show_b))]) = Inr (DetailView show_b (Some season_one))
   \<and> ShowDetailPage (run detail_initial
        [IdChanged ''A'', IdChanged ''B'', Settled ''B'' (ok_with (Some show_b)),
         Settled ''A'' (ok_with (Some show_a))]) = Inr (DetailView show_a (Some season_one))"
proof -
  let ?ra = "\<lparr>status = 200, json = Inr (Some show_a)\<rparr>"
  let ?rb = "\<lparr>status = 200, json = Inr (Some show_b)\<rparr>"
  have oa: "ok ?ra" and ob: "ok ?rb" by (simp_all add: ok_def)
  have ja: "json ?ra = Inr (Some show_a)" and jb: "json ?rb = Inr (Some show_b)" by simp_all
  have sa: "seasons show_a = Some [season_one, season_two]" by (simp add: show_a_def)
  have sb: "seasons show_b = Some [season_one]" by (simp add: show_b_def)
  from last_settled_response_is_shown [OF oa ja sa ob jb sb, of detail_initial "''A''" "''B''"]
    oa ob sa sb
  show ?thesis by (simp add: ok_with_def)
qed

text \<open>
  Claim C1 as stated fails: the route goes to A and then to B while A's request is pending,
  B's response arrives first and A's second. The route shows B, the page displays A.
\<close>

theorem stale_response_overwrites_counterexample:
  "latest_id [IdChanged ''A'', IdChanged ''B'', Settled ''B'' (ok_with (Some show_b)),
              Settled ''A'' (ok_with (Some show_a))] = Some ''B''
   \<and> ShowDetailPage (run detail_initial
        [IdChanged ''A'', IdChanged ''B'', Settled ''B'' (ok_with (Some show_b)),
         Settled ''A'' (ok_with (Some show_a))]) = Inr (DetailView show_a (Some season_one))
   \<and> show_id show_a = ''A''"
  by (simp add: run_Cons run_Nil step_IdChanged step_Settled call_state settle_eq try_ok_with
      show_a_def show_b_def detail_initial_def ShowDetailPage_def truthy_def currentSeason_def)

text \<open>
  Claim C3, as the code has it. Loading a show whose \<^verbatim>\<open>seasons\<close> array is non-empty stores
  the show and resets the season index to 0; loading a show whose \<^verbatim>\<open>seasons\<close> is empty or
  missing stores the show and leaves the index as it was. After any sequence of events from
  the initial state, the index is a valid index into the held show's seasons whenever these
  are non-empty. For a show that has a \<^verbatim>\<open>seasons\<close> array, \<^verbatim>\<open>currentSeason\<close> is
  \<^verbatim>\<open>seasons[index]\<close> when the index is in range and absent otherwise; for a show whose
  \<^verbatim>\<open>seasons\<close> is missing, reading \<^verbatim>\<open>currentSeason\<close> throws a \<^verbatim>\<open>TypeError\<close>.
\<close>

theorem season_index_reset_and_valid:
  "(ok res \<and> json res = Inr (Some d) \<and> seasons d = Some ss \<and> ss \<noteq> [] \<longrightarrow>
      show' (loadShowDetails_settle (Inr res) s) = Some d
      \<and> selectedSeasonIndex (loadShowDetails_settle (Inr res) s) = 0)
   \<and> (ok res' \<and> json res' = Inr (Some d') \<and> (seasons d' = None \<or> seasons d' = Some []) \<longrightarrow>
      show' (loadShowDetails_settle (Inr res') s) = Some d'
      \<and> selectedSeasonIndex (loadShowDetails_settle (Inr res') s) = selectedSeasonIndex s)
   \<and> season_index_valid (run detail_initial evs)
   \<and> (seasons d'' = Some ss'' \<and> i < length ss'' \<longrightarrow>
        currentSeason d'' i = Inr (Some (ss'' ! i)))
   \<and> (seasons d'' = Some ss'' \<and> length ss'' \<le> i \<longrightarrow> currentSeason d'' i = Inr None)
   \<and> (seasons d'' = None \<longrightarrow> currentSeason d'' i = Inl TypeError)"
proof (intro conjI impI)
  assume a: "ok res \<and> json res = Inr (Some d) \<and> seasons d = Some ss \<and> ss \<noteq> []"
  then have t: "fetchShowDetails_try (Inr res) = Inr (Some d)" by (simp add: try_ok)
  from a show "show' (loadShowDetails_settle (Inr res) s) = Some d"
    by (simp add: settle_eq t)
  from a show "selectedSeasonIndex (loadShowDetails_settle (Inr res) s) = 0"
    by (simp add: settle_eq t)
next
  assume a: "ok res' \<and> json res' = Inr (Some d') \<and> (seasons d' = None \<or> seasons d' = Some [])"
  then have t: "fetchShowDetails_try (Inr res') = Inr (Some d')" by (simp add: try_ok)
  from a show "show' (loadShowDetails_settle (Inr res') s) = Some d'"
    by (auto simp: settle_eq t)
  from a show "selectedSeasonIndex (loadShowDetails_settle (Inr res') s) = selectedSeasonIndex s"
    by (auto simp: settle_eq t)
next
  show "season_index_valid (run detail_initial evs)"
    using initial_valid by (rule run_preserves_valid)
next
  assume "seasons d'' = Some ss'' \<and> i < length ss''"
  then show "currentSeason d'' i = Inr (Some (ss'' ! i))"
    by (simp add: currentSeason_def)
next
  assume "seasons d'' = Some ss'' \<and> length ss'' \<le> i"
  then show "currentSeason d'' i = Inr None"
    by (simp add: currentSeason_def)
next
  assume "seasons d'' = None"
  then show "currentSeason d'' i = Inl TypeError"
    by (simp add: currentSeason_def)
qed

text \<open>
  Show A held with its second season picked: loading B resets the index, loading C (no
  seasons) does not; index 1 of A's two seasons is valid, index 2 gives no season; show E
  has no \<^verbatim>\<open>seasons\<close> property.
\<close>

theorem season_index_reset_and_valid_witness:
  "ok \<lparr>status = 200, json = Inr (Some show_b)\<rparr>
   \<and> seasons show_b = Some [season_one]
   \<and> selectedSeasonIndex (loadShowDetails_settle (ok_with (Some show_b))
        \<lparr>show' = Some show_a, loading = True, error = None, selectedSeasonIndex = 1\<rparr>) = 0
   \<and> seasons show_c = Some []
   \<and> selectedSeasonIndex (loadShowDetails_settle (ok_with (Some show_c))
        \<lparr>show' = Some show_a, loading = True, error = None, selectedSeasonIndex = 1\<rparr>) = 1
   \<and> season_index_valid (run detail_initial
        [IdChanged ''A'', Settled ''A'' (ok_with (Some show_a)), SeasonPicked 1])
   \<and> show' (run detail_initial
        [IdChanged ''A'', Settled ''A'' (ok_with (Some show_a)), SeasonPicked 1]) = Some show_a
   \<and> selectedSeasonIndex (run detail_initial
        [IdChanged ''A'', Settled ''A'' (ok_with (Some show_a)), SeasonPicked 1]) = 1
   \<and> seasons show_a = Some [season_one, season_two]
   \<and> currentSeason show_a 1 = Inr (Some season_two)
   \<and> currentSeason show_a 2 = Inr None
   \<and> seasons show_e = None
   \<and> currentSeason show_e 0 = Inl TypeError"
proof -
  let ?s = "\<lparr>show' = Some show_a, loading = True, error = None, selectedSeasonIndex = 1\<rparr>"
  let ?evs = "[IdChanged ''A'', Settled ''A'' (ok_with (Some show_a)), SeasonPicked 1]"
  have okb: "ok \<lparr>status = 200, json = Inr (Some show_b)\<rparr>" by (simp add: ok_def)
  have okc: "ok \<lparr>status = 200, json = Inr (Some show_c)\<rparr>" by (simp add: ok_def)
  have sa: "seasons show_a = Some [season_one, season_two]" by (simp add: show_a_def)
  have sb: "seasons show_b = Some [season_one]" by (simp add: show_b_def)
  have sc: "seasons show_c = Some []" by (simp add: show_c_def)
  have se: "seasons show_e = None" by (simp add: show_e_def)
  have held: "show' (run detail_initial ?evs) = Some show_a"
    by (simp add: run_Cons run_Nil step_IdChanged step_Settled step_SeasonPicked call_state
        settle_eq try_ok_with sa detail_initial_def ShowDetailPage_def truthy_def
        currentSeason_def)
  have idx: "selectedSeasonIndex (run detail_initial ?evs) = 1"
    by (simp add: run_Cons run_Nil step_IdChanged step_Settled step_SeasonPicked call_state
        settle_eq try_ok_with sa detail_initial_def ShowDetailPage_def truthy_def
        currentSeason_def)
  note th1 = season_index_reset_and_valid
    [where res = "\<lparr>status = 200, json = Inr (Some show_b)\<rparr>" and d = show_b
       and ss = "[season_one]" and s = ?s
       and res' = "\<lparr>status = 200, json = Inr (Some show_c)\<rparr>" and d' = show_c
       and evs = ?evs and d'' = show_a and ss'' = "[season_one, season_two]" and i = 1]
  note th2 = season_index_reset_and_valid
    [where res = "\<lparr>status = 200, json = Inr (Some show_b)\<rparr>" and d = show_b
       and ss = "[season_one]" and s = ?s
       and res' = "\<lparr>status = 200, json = Inr (Some show_c)\<rparr>" and d' = show_c
       and evs = ?evs and d'' = show_a and ss'' = "[season_one, season_two]" and i = 2]
  note th3 = season_index_reset_and_valid
    [where res = "\<lparr>status = 200, json = Inr (Some show_b)\<rparr>" and d = show_b
       and ss = "[season_one]" and s = ?s
       and res' = "\<lparr>status = 200, json = Inr (Some show_c)\<rparr>" and d' = show_c
       and evs = ?evs and d'' = show_e and ss'' = "[]" and i = 0]
  from th1 th2 th3 okb okc sa sb sc se held idx show ?thesis
    by (simp add: ok_with_def)
qed


text \<open>
  Claim C3 as stated fails: with the second season of show A picked, loading show C, whose
  \<^verbatim>\<open>seasons\<close> array is empty, stores C and leaves the index at 1.
\<close>

theorem season_index_not_reset_counterexample:
  "selectedSeasonIndex (run detail_initial
      [IdChanged ''A'', Settled ''A'' (ok_with (Some show_a)), SeasonPicked 1,
       IdChanged ''C'', Settled ''C'' (ok_with (Some show_c))]) = 1
   \<and> show' (run detail_initial
      [IdChanged ''A'', Settled ''A'' (ok_with (Some show_a)), SeasonPicked 1,
       IdChanged ''C'', Settled ''C'' (ok_with (Some show_c))]) = Some show_c"
  by (simp add: run_Cons run_Nil step_IdChanged step_Settled step_SeasonPicked call_state
      settle_eq try_ok_with show_a_def show_c_def detail_initial_def ShowDetailPage_def
      truthy_def currentSeason_def)

text \<open>
  Claim C10, as the code has it. Every call begins by setting the loading flag and clearing
  the error, and every settling, on each path, ends with the loading flag cleared. When no
  request settles with a failure between the call and its own settling, the error
  afterwards is this request's own message if it failed and \<^verbatim>\<open>null\<close> if it succeeded.
\<close>

theorem fetchShowDetails_loading_and_error:
  "loading (loadShowDetails_call s)
   \<and> error (loadShowDetails_call s) = None
   \<and> \<not> loading (snd (fetchShowDetails_settle setLoading setError r s))
   \<and> \<not> loading (loadShowDetails_settle r s)
   \<and> ((\<forall>ev \<in> set evs. no_failure ev) \<longrightarrow>
        error (loadShowDetails_settle r (run (loadShowDetails_call s) evs))
          = (case fetchShowDetails_try r of Inl e \<Rightarrow> Some (message e) | Inr data \<Rightarrow> None))"
proof (intro conjI impI)
  show "loading (loadShowDetails_call s)" by (simp add: call_state)
  show "error (loadShowDetails_call s) = None" by (simp add: call_state)
  show "\<not> loading (snd (fetchShowDetails_settle setLoading setError r s))"
    by (simp add: fetchShowDetails_settle_def setLoading_def setError_def split: sum.splits)
  show "\<not> loading (loadShowDetails_settle r s)"
    by (simp add: settle_eq split: sum.splits option.splits)
next
  assume "\<forall>ev \<in> set evs. no_failure ev"
  then have "error (run (loadShowDetails_call s) evs) = None"
    by (simp add: run_keeps_error_clear call_state)
  then show "error (loadShowDetails_settle r (run (loadShowDetails_call s) evs))
          = (case fetchShowDetails_try r of Inl e \<Rightarrow> Some (message e) | Inr data \<Rightarrow> None)"
    by (simp add: settle_eq split: sum.splits option.splits)
qed

text \<open>
  An old error is on display; a request for A is made, a request for B is made and
  succeeds, then A's succeeds: no error remains. A request that ends in status 500 leaves
  its own message.
\<close>

theorem fetchShowDetails_loading_and_error_witness:
  "no_failure (IdChanged ''B'')
   \<and> no_failure (Settled ''B'' (ok_with (Some show_b)))
   \<and> error (loadShowDetails_settle (ok_with (Some show_a))
        (run (loadShowDetails_call
               \<lparr>show' = None, loading = False, error = Some ''Show not found.'',
                selectedSeasonIndex = 0\<rparr>)
           [IdChanged ''B'', Settled ''B'' (ok_with (Some show_b))])) = None
   \<and> error (loadShowDetails_settle (Inr \<lparr>status = 500, json = Inr None\<rparr>)
        (run (loadShowDetails_call
               \<lparr>show' = None, loading = False, error = Some ''Show not found.'',
                selectedSeasonIndex = 0\<rparr>) []))
       = Some ''Failed to fetch show details: 500''"
proof -
  let ?s = "\<lparr>show' = None, loading = False, error = Some ''Show not found.'',
                selectedSeasonIndex = 0\<rparr>"
  let ?evs = "[IdChanged ''B'', Settled ''B'' (ok_with (Some show_b))]"
  have nf: "\<forall>ev \<in> set ?evs. no_failure ev"
    by (simp add: no_failure_def failed_def ok_with_def ok_def)
  have t500: "fetchShowDetails_try (Inr \<lparr>status = 500, json = Inr None\<rparr>
                 :: podcast_show option fetch_result)
               = Inl (Error ''Failed to fetch show details: 500'')"
    by (simp add: fetchShowDetails_try_def ok_def number_to_string_def digits.simps)
  from fetchShowDetails_loading_and_error [of ?s "ok_with (Some show_a)" ?evs]
    fetchShowDetails_loading_and_error
      [of ?s "Inr \<lparr>status = 500, json = Inr None\<rparr>" "[]"] nf
  show ?thesis by (simp add: try_ok_with t500 run_Nil)
qed

text \<open>
  Claim C10 as stated fails: requests for A and B are both pending, A's fails and then B's
  succeeds. B's call has completed, and the page shows the error that A left.
\<close>

theorem earlier_error_stays_counterexample:
  "ShowDetailPage (run detail_initial
      [IdChanged ''A'', IdChanged ''B'', Settled ''A'' (Inl (Error ''Failed to fetch'')),
       Settled ''B'' (ok_with (Some show_b))])
     = Inr (ErrorView ''Error loading show: Failed to fetch'')
   \<and> show' (run detail_initial
      [IdChanged ''A'', IdChanged ''B'', Settled ''A'' (Inl (Error ''Failed to fetch'')),
       Settled ''B'' (ok_with (Some show_b))]) = Some show_b"
  by (simp add: run_Cons run_Nil step_IdChanged step_Settled call_state settle_eq try_ok_with
      try_rejected show_b_def detail_initial_def ShowDetailPage_def truthy_def)

end
